theory Spec2Isabelle
  imports Complex_Main "HOL-Library.Multiset"
begin

section \<open>NovaZone backend: a shallow embedding of \<open>backend/server.py\<close>\<close>

text \<open>
  The route handlers of \<open>server.py\<close> are modelled as functions from the database state
  (and the request) to a result and the database state afterwards. A handler that raises
  returns the exception as \<open>Inl\<close>; the state it returns then holds the writes made before
  the raise. Python floats are modelled as reals, \<open>datetime\<close> values as integers (seconds),
  and the values of \<open>uuid.uuid4()\<close> and \<open>datetime.utcnow()\<close> are arguments of the handler
  that draws them.
\<close>

subsection \<open>Exceptions\<close>

text \<open>The exception classes of PyJWT that \<open>jwt.decode\<close> raises, with their base classes.\<close>

datatype jwt_class =
  PyJWTError | InvalidTokenError | DecodeError | InvalidSignatureError | ExpiredSignatureError

datatype py_exception =
    HTTPException nat string
  | JWTException jwt_class
  | AttributeError string
  | TypeError string
  | ZeroDivisionError
  | OverflowError
  | ValueError string

text \<open>
  The status the framework answers with: an \<open>HTTPException\<close> carries its own status code,
  any other exception leaving a handler is an internal server error.
\<close>

fun status_code :: "py_exception \<Rightarrow> nat" where
  "status_code (HTTPException code detail) = code"
| "status_code _ = 500"

type_synonym 'a result = "py_exception + 'a"

subsection \<open>Models\<close>

type_synonym datetime = int

record user =
  user_id :: string
  user_email :: string
  user_full_name :: string
  user_role :: string
  user_created_at :: datetime
  user_profile_image :: "string option"
  user_bio :: "string option"

text \<open>The stored document: \<open>user.dict()\<close> with the key \<open>hashed_password\<close> added.\<close>

record user_doc = user +
  hashed_password :: string

record user_create =
  uc_email :: string
  uc_password :: string
  uc_full_name :: string
  uc_role :: string

record user_response =
  resp_id :: string
  resp_email :: string
  resp_full_name :: string
  resp_role :: string
  resp_profile_image :: "string option"
  resp_bio :: "string option"

record course =
  course_id :: string
  course_title :: string
  course_description :: string
  course_teacher_id :: string
  course_teacher_name :: string
  course_subject :: string
  course_difficulty_level :: string
  course_duration_hours :: int
  course_created_at :: datetime
  course_image :: "string option"
  course_enrolled_students :: "string list"
  course_rating :: real
  course_total_lessons :: int

record teacher =
  teacher_id :: string
  teacher_user_id :: string
  teacher_full_name :: string
  teacher_email :: string
  teacher_subjects :: "string list"
  teacher_experience_years :: int
  teacher_rating :: real
  teacher_total_students :: int
  teacher_bio :: "string option"
  teacher_profile_image :: "string option"
  teacher_hourly_rate :: "real option"

record teacher_create =
  tc_subjects :: "string list"
  tc_experience_years :: int
  tc_bio :: "string option"
  tc_hourly_rate :: "real option"

record progress =
  progress_id :: string
  progress_student_id :: string
  progress_course_id :: string
  progress_course_title :: string
  progress_completion_percentage :: real
  progress_last_accessed :: datetime
  progress_time_spent_hours :: real
  progress_quiz_scores :: "real list"

record quiz_question =
  question_id :: string
  question_text :: string
  question_options :: "string list"
  correct_answer :: int
  question_explanation :: "string option"

record quiz =
  quiz_id :: string
  quiz_course_id :: string
  quiz_title :: string
  quiz_questions :: "quiz_question list"
  quiz_created_at :: datetime

record quiz_submission =
  submission_quiz_id :: string
  submission_student_id :: string
  submission_answers :: "int list"
  submission_score :: real
  submission_completed_at :: datetime

record community_post =
  post_id :: string
  post_author_id :: string
  post_author_name :: string
  post_title :: string
  post_content :: string
  post_category :: string
  post_created_at :: datetime
  post_likes :: int
  post_replies :: "string list"

subsection \<open>The persistence gateway\<close>

text \<open>
  A collection is the list of its documents in stored order. \<open>find_one\<close> returns the first
  document matching the query, \<open>find\<close> all of them, \<open>to_list n\<close> at most \<open>n\<close> of a cursor,
  \<open>insert_one\<close> appends, and \<open>update_one\<close> changes the first matching document only.
\<close>

record db =
  users :: "user_doc list"
  teachers :: "teacher list"
  courses :: "course list"
  progress_coll :: "progress list"
  quizzes :: "quiz list"
  quiz_submissions :: "quiz_submission list"
  community_posts :: "community_post list"

definition find_one :: "('a \<Rightarrow> bool) \<Rightarrow> 'a list \<Rightarrow> 'a option" where
  "find_one query coll = List.find query coll"

definition find_docs :: "('a \<Rightarrow> bool) \<Rightarrow> 'a list \<Rightarrow> 'a list" where
  "find_docs query coll = filter query coll"

definition to_list :: "nat \<Rightarrow> 'a list \<Rightarrow> 'a list" where
  "to_list n cursor = take n cursor"

definition insert_one :: "'a \<Rightarrow> 'a list \<Rightarrow> 'a list" where
  "insert_one doc coll = coll @ [doc]"

fun update_one :: "('a \<Rightarrow> bool) \<Rightarrow> ('a \<Rightarrow> 'a) \<Rightarrow> 'a list \<Rightarrow> 'a list" where
  "update_one query upd [] = []"
| "update_one query upd (d # ds) =
     (if query d then upd d # ds else d # update_one query upd ds)"

text \<open>
  The driver encodes a document before it sends a write. An integer of a document is encoded
  in at most 8 bytes; on an integer outside the signed 64-bit range the driver raises
  \<open>OverflowError\<close> and nothing is written. The models do not bound the integers of a
  request (\<open>answers\<close>, \<open>experience_years\<close>).
\<close>

definition bson_int :: "int \<Rightarrow> bool" where
  "bson_int i \<longleftrightarrow> - (2 ^ 63) \<le> i \<and> i < 2 ^ 63"

text \<open>
  Every stored document carries the key \<open>_id\<close>, an \<open>ObjectId\<close>. A query with the projection
  \<open>{"_id": 0}\<close> leaves it out; a query without it returns the documents with it. When a
  handler returns, the framework encodes the returned value with \<open>jsonable_encoder\<close>, which
  raises \<open>ValueError\<close> on an \<open>ObjectId\<close>. The first argument is the list of the
  documents of the returned value that were read without the projection.
\<close>

definition jsonable_encoder :: "'d list \<Rightarrow> 'a \<Rightarrow> 'a result" where
  "jsonable_encoder unprojected body =
     (if unprojected = [] then Inr body
      else Inl (ValueError ''ObjectId object is not iterable''))"

subsection \<open>Quiz submission\<close>

text \<open>
  The scoring loop of \<open>submit_quiz\<close>: \<open>for i, answer in enumerate(submission.answers)\<close>,
  with the running index \<open>i\<close> and the counter \<open>correct_answers\<close>.
\<close>

fun count_correct :: "quiz_question list \<Rightarrow> nat \<Rightarrow> int list \<Rightarrow> nat \<Rightarrow> nat" where
  "count_correct questions i [] correct_answers = correct_answers"
| "count_correct questions i (answer # rest) correct_answers =
     count_correct questions (Suc i) rest
       (if i < length questions \<and> answer = correct_answer (questions ! i)
        then correct_answers + 1 else correct_answers)"

record quiz_result =
  result_score :: real
  result_correct_answers :: nat
  result_total_questions :: nat
  result_percentage :: real

text \<open>
  The part of \<open>submit_quiz\<close> under the comment \<open># Calculate score\<close>, after the quiz is
  found: the count, the number of questions and the score. The division raises
  \<open>ZeroDivisionError\<close> when the quiz has no question.
\<close>

definition calculate_score :: "quiz_question list \<Rightarrow> int list \<Rightarrow> (real \<times> nat \<times> nat) result" where
  "calculate_score questions answers =
     (let correct_answers = count_correct questions 0 answers 0;
          total_questions = length questions
      in if total_questions = 0 then Inl ZeroDivisionError
         else Inr ((real correct_answers / real total_questions) * 100,
                   correct_answers, total_questions))"

text \<open>
  \<open>submit_quiz\<close>. The submission is stored with the score and the student id set by the
  server; \<open>insert_one\<close> raises \<open>OverflowError\<close> when an answer does not fit in 8 bytes, and
  then nothing is stored and no result is returned.
\<close>

definition submit_quiz ::
  "db \<Rightarrow> quiz_submission \<Rightarrow> user_response \<Rightarrow> quiz_result result \<times> db" where
  "submit_quiz d submission current_user =
     (case find_one (\<lambda>q. quiz_id q = submission_quiz_id submission) (quizzes d) of
        None \<Rightarrow> (Inl (HTTPException 404 ''Quiz not found''), d)
      | Some qz \<Rightarrow>
          (case calculate_score (quiz_questions qz) (submission_answers submission) of
             Inl e \<Rightarrow> (Inl e, d)
           | Inr (score, correct_answers, total_questions) \<Rightarrow>
               (let stored = submission\<lparr>submission_score := score,
                                         submission_student_id := resp_id current_user\<rparr>
                in if list_all bson_int (submission_answers stored)
                   then (Inr \<lparr>result_score = score, result_correct_answers = correct_answers,
                              result_total_questions = total_questions,
                              result_percentage = score\<rparr>,
                         d\<lparr>quiz_submissions := insert_one stored (quiz_submissions d)\<rparr>)
                   else (Inl OverflowError, d))))"

subsection \<open>Identity and tokens\<close>

text \<open>
  A token is modelled symbolically: either the encoding of a payload under a signing key,
  or a string that does not decode. \<open>jwt.decode\<close> raises \<open>DecodeError\<close> on the latter,
  \<open>InvalidSignatureError\<close> when the key differs and \<open>ExpiredSignatureError\<close> when the
  payload carries an expiry that has passed.
\<close>

definition SECRET_KEY :: string where
  "SECRET_KEY = ''your-secret-key-change-in-production''"

record payload =
  claim_sub :: "string option"
  claim_exp :: "datetime option"

datatype token = Signed string payload | Undecodable string

definition jwt_encode :: "payload \<Rightarrow> string \<Rightarrow> token" where
  "jwt_encode to_encode key = Signed key to_encode"

definition jwt_decode :: "datetime \<Rightarrow> token \<Rightarrow> string \<Rightarrow> payload result" where
  "jwt_decode now tok key =
     (case tok of
        Undecodable s \<Rightarrow> Inl (JWTException DecodeError)
      | Signed k p \<Rightarrow>
          if k \<noteq> key then Inl (JWTException InvalidSignatureError)
          else (case claim_exp p of
                  None \<Rightarrow> Inr p
                | Some e \<Rightarrow> if e \<le> now then Inl (JWTException ExpiredSignatureError) else Inr p))"

text \<open>
  \<open>create_access_token\<close>: \<open>if expires_delta:\<close> is false for \<open>None\<close> and for a zero
  \<open>timedelta\<close>; the default lifetime is 15 minutes.
\<close>

definition create_access_token :: "datetime \<Rightarrow> payload \<Rightarrow> int option \<Rightarrow> token" where
  "create_access_token now data expires_delta =
     (let expire = (case expires_delta of
                      Some delta \<Rightarrow> if delta \<noteq> 0 then now + delta else now + 15 * 60
                    | None \<Rightarrow> now + 15 * 60)
      in jwt_encode (data\<lparr>claim_exp := Some expire\<rparr>) SECRET_KEY)"

text \<open>
  The classes of an exception of PyJWT, most derived first, and the exception classes the
  module \<open>jwt\<close> defines under a name. \<open>jwt\<close> defines \<open>PyJWTError\<close>; it defines no attribute
  \<open>PyJSONError\<close>, so evaluating \<open>jwt.PyJSONError\<close> raises \<open>AttributeError\<close>.
\<close>

fun jwt_mro :: "jwt_class \<Rightarrow> jwt_class list" where
  "jwt_mro PyJWTError = [PyJWTError]"
| "jwt_mro InvalidTokenError = [InvalidTokenError, PyJWTError]"
| "jwt_mro DecodeError = [DecodeError, InvalidTokenError, PyJWTError]"
| "jwt_mro InvalidSignatureError = [InvalidSignatureError, DecodeError, InvalidTokenError, PyJWTError]"
| "jwt_mro ExpiredSignatureError = [ExpiredSignatureError, InvalidTokenError, PyJWTError]"

fun isinstance :: "py_exception \<Rightarrow> jwt_class \<Rightarrow> bool" where
  "isinstance (JWTException c) cls = (cls \<in> set (jwt_mro c))"
| "isinstance _ cls = False"

definition jwt_getattr :: "string \<Rightarrow> jwt_class option" where
  "jwt_getattr name =
     map_of [(''PyJWTError'', PyJWTError), (''InvalidTokenError'', InvalidTokenError),
             (''DecodeError'', DecodeError), (''InvalidSignatureError'', InvalidSignatureError),
             (''ExpiredSignatureError'', ExpiredSignatureError)] name"

definition UserResponse :: "'a user_scheme \<Rightarrow> user_response" where
  "UserResponse u =
     \<lparr>resp_id = user_id u, resp_email = user_email u, resp_full_name = user_full_name u,
      resp_role = user_role u, resp_profile_image = user_profile_image u, resp_bio = user_bio u\<rparr>"

text \<open>
  \<open>get_current_user\<close>. The body of the \<open>try\<close> statement is \<open>try_body\<close>. Any exception it
  raises, the two \<open>HTTPException\<close>s included, reaches the clause \<open>except jwt.PyJSONError\<close>,
  whose class expression is evaluated before it is matched against the exception.
\<close>

definition try_body :: "datetime \<Rightarrow> db \<Rightarrow> token \<Rightarrow> user_response result" where
  "try_body now d tok =
     (case jwt_decode now tok SECRET_KEY of
        Inl e \<Rightarrow> Inl e
      | Inr p \<Rightarrow>
          (case claim_sub p of
             None \<Rightarrow> Inl (HTTPException 401 ''Invalid token'')
           | Some uid \<Rightarrow>
               (case find_one (\<lambda>u. user_id u = uid) (users d) of
                  None \<Rightarrow> Inl (HTTPException 401 ''User not found'')
                | Some user_doc \<Rightarrow> Inr (UserResponse user_doc))))"

definition get_current_user :: "datetime \<Rightarrow> db \<Rightarrow> token \<Rightarrow> user_response result" where
  "get_current_user now d tok =
     (case try_body now d tok of
        Inr current_user \<Rightarrow> Inr current_user
      | Inl e \<Rightarrow>
          (case jwt_getattr ''PyJSONError'' of
             None \<Rightarrow> Inl (AttributeError ''PyJSONError'')
           | Some cls \<Rightarrow>
               if isinstance e cls then Inl (HTTPException 401 ''Invalid token'') else Inl e))"

subsection \<open>Registration\<close>

record token_response =
  access_token :: token
  token_type :: string
  token_user :: user_response

text \<open>
  \<open>register\<close>. \<open>get_password_hash\<close> is the password hasher; \<open>uuid_user\<close> and \<open>uuid_teacher\<close>
  are the identifiers drawn for the \<open>User\<close> and the \<open>Teacher\<close>, \<open>created\<close> and \<open>issued\<close> the
  clock readings of \<open>User(...)\<close> and of \<open>create_access_token\<close>.
\<close>

definition register ::
  "(string \<Rightarrow> string) \<Rightarrow> string \<Rightarrow> string \<Rightarrow> datetime \<Rightarrow> datetime \<Rightarrow> db \<Rightarrow> user_create
     \<Rightarrow> token_response result \<times> db" where
  "register get_password_hash uuid_user uuid_teacher created issued d user_data =
     (case find_one (\<lambda>u. user_email u = uc_email user_data) (users d) of
        Some existing_user \<Rightarrow> (Inl (HTTPException 400 ''Email already registered''), d)
      | None \<Rightarrow>
          (let hashed = get_password_hash (uc_password user_data);
               usr = \<lparr>user_id = uuid_user, user_email = uc_email user_data,
                      user_full_name = uc_full_name user_data, user_role = uc_role user_data,
                      user_created_at = created, user_profile_image = None, user_bio = None\<rparr>;
               user_dict = \<lparr>user_id = user_id usr, user_email = user_email usr,
                            user_full_name = user_full_name usr, user_role = user_role usr,
                            user_created_at = user_created_at usr,
                            user_profile_image = user_profile_image usr, user_bio = user_bio usr,
                            hashed_password = hashed\<rparr>;
               d1 = d\<lparr>users := insert_one user_dict (users d)\<rparr>;
               d2 = (if uc_role user_data = ''teacher''
                     then d1\<lparr>teachers := insert_one
                            \<lparr>teacher_id = uuid_teacher, teacher_user_id = user_id usr,
                             teacher_full_name = user_full_name usr, teacher_email = user_email usr,
                             teacher_subjects = [], teacher_experience_years = 0,
                             teacher_rating = 4.5, teacher_total_students = 0, teacher_bio = None,
                             teacher_profile_image = None, teacher_hourly_rate = None\<rparr>
                            (teachers d1)\<rparr>
                     else d1);
               tok = create_access_token issued
                       \<lparr>claim_sub = Some (user_id usr), claim_exp = None\<rparr> None
           in (Inr \<lparr>access_token = tok, token_type = ''bearer'', token_user = UserResponse usr\<rparr>,
               d2)))"

subsection \<open>Mock insight generators\<close>

record recommended_course =
  rec_course_id :: string
  rec_title :: string
  rec_priority :: string
  rec_reason :: string

record learning_path =
  current_level :: string
  recommended_courses :: "recommended_course list"
  learning_goals :: "string list"
  estimated_completion :: string

definition get_learning_path :: "string \<Rightarrow> learning_path" where
  "get_learning_path student_id =
     \<lparr>current_level = ''Intermediate'',
      recommended_courses =
        [\<lparr>rec_course_id = ''course_1'', rec_title = ''Advanced Python Programming'',
          rec_priority = ''high'',
          rec_reason = ''Based on your progress in basic Python, this is the next logical step''\<rparr>,
         \<lparr>rec_course_id = ''course_2'', rec_title = ''Data Structures & Algorithms'',
          rec_priority = ''medium'',
          rec_reason = ''Will strengthen your programming foundation''\<rparr>],
      learning_goals = [''Master object-oriented programming'', ''Understand algorithm complexity'',
                        ''Build real-world projects''],
      estimated_completion = ''6 weeks''\<rparr>"

record progress_analysis =
  overall_performance :: string
  strengths :: "string list"
  areas_for_improvement :: "string list"
  recommendations :: "string list"
  next_milestone :: string
  motivation_message :: string

definition analyze_progress :: "string \<Rightarrow> progress_analysis" where
  "analyze_progress student_id =
     \<lparr>overall_performance = ''Good'',
      strengths = [''Problem solving'', ''Code implementation''],
      areas_for_improvement = [''Algorithm optimization'', ''Code documentation''],
      recommendations = [''Focus more on time complexity analysis'',
                         ''Practice writing clean, documented code'',
                         ''Take on more challenging projects''],
      next_milestone = ''Complete advanced algorithms course'',
      motivation_message = ''You're making excellent progress! Keep up the great work.''\<rparr>"

text \<open>\<open>generate_quiz_questions\<close>; the two identifiers are those drawn for the questions.\<close>

definition generate_quiz_questions :: "string \<Rightarrow> string \<Rightarrow> string \<Rightarrow> string \<Rightarrow> quiz_question list" where
  "generate_quiz_questions uuid1 uuid2 cid topic =
     [\<lparr>question_id = uuid1,
       question_text = ''What is the main purpose of object-oriented programming?'',
       question_options = [''To make code run faster'', ''To organize code into reusable objects'',
                           ''To use less memory'', ''To write shorter programs''],
       correct_answer = 1,
       question_explanation = Some ''OOP helps organize code into reusable, maintainable objects.''\<rparr>,
      \<lparr>question_id = uuid2,
       question_text = ''Which principle of OOP allows hiding internal implementation?'',
       question_options = [''Inheritance'', ''Polymorphism'', ''Encapsulation'', ''Abstraction''],
       correct_answer = 2,
       question_explanation =
         Some ''Encapsulation hides the internal state and implementation details.''\<rparr>]"

subsection \<open>Student dashboard\<close>

text \<open>
  \<open>sort("created_at", -1)\<close>: descending by creation time. Documents with equal keys are
  kept in stored order here; the theorems below do not depend on that order.
\<close>

definition sort_desc :: "('a \<Rightarrow> int) \<Rightarrow> 'a list \<Rightarrow> 'a list" where
  "sort_desc key cursor = sort_key (\<lambda>doc. - key doc) cursor"

definition limit :: "nat \<Rightarrow> 'a list \<Rightarrow> 'a list" where
  "limit n cursor = take n cursor"

record student_dashboard =
  dash_learning_path :: learning_path
  dash_enrolled_courses :: "course list"
  dash_progress :: "progress list"
  dash_recent_posts :: "community_post list"
  dash_ai_insights :: progress_analysis

definition get_student_dashboard :: "db \<Rightarrow> string \<Rightarrow> student_dashboard" where
  "get_student_dashboard d student_id =
     (let lp = get_learning_path student_id;
          enrolled_courses =
            to_list 10 (find_docs (\<lambda>c. student_id \<in> set (course_enrolled_students c)) (courses d));
          progress_docs =
            to_list 10 (find_docs (\<lambda>p. progress_student_id p = student_id) (progress_coll d));
          recent_posts =
            to_list 5 (limit 5 (sort_desc post_created_at
                                  (find_docs (\<lambda>p. True) (community_posts d))))
      in \<lparr>dash_learning_path = lp, dash_enrolled_courses = enrolled_courses,
          dash_progress = progress_docs, dash_recent_posts = recent_posts,
          dash_ai_insights = analyze_progress student_id\<rparr>)"

subsection \<open>Courses and enrollment\<close>



text \<open>The update operator \<open>$addToSet\<close> on an array field.\<close>

definition add_to_set :: "'a \<Rightarrow> 'a list \<Rightarrow> 'a list" where
  "add_to_set x xs = (if x \<in> set xs then xs else xs @ [x])"

definition enroll_in_course ::
  "string \<Rightarrow> datetime \<Rightarrow> db \<Rightarrow> string \<Rightarrow> user_response \<Rightarrow> string result \<times> db" where
  "enroll_in_course uuid now d cid current_user =
     (if resp_role current_user \<noteq> ''student''
      then (Inl (HTTPException 403 ''Only students can enroll in courses''), d)
      else
        (let d1 = d\<lparr>courses :=
                     update_one (\<lambda>c. course_id c = cid)
                       (\<lambda>c. c\<lparr>course_enrolled_students :=
                                 add_to_set (resp_id current_user) (course_enrolled_students c)\<rparr>)
                       (courses d)\<rparr>
         in case find_one (\<lambda>c. course_id c = cid) (courses d1) of
              None \<Rightarrow> (Inr ''Successfully enrolled in course'', d1)
            | Some c \<Rightarrow>
                (Inr ''Successfully enrolled in course'',
                 d1\<lparr>progress_coll := insert_one
                       \<lparr>progress_id = uuid, progress_student_id = resp_id current_user,
                        progress_course_id = cid, progress_course_title = course_title c,
                        progress_completion_percentage = 0, progress_last_accessed = now,
                        progress_time_spent_hours = 0, progress_quiz_scores = []\<rparr>
                       (progress_coll d1)\<rparr>)))"

subsection \<open>Teacher profile\<close>

text \<open>
  \<open>update_teacher_profile\<close>: \<open>profile_data.dict()\<close> holds all four fields of
  \<open>TeacherCreate\<close>; a \<open>bio\<close> or \<open>hourly_rate\<close> left out of the request body has its default
  \<open>None\<close> there. \<open>update_one\<close> encodes that document, whether or not a profile matches,
  and raises \<open>OverflowError\<close> when \<open>experience_years\<close> does not fit in 8 bytes.
\<close>

definition set_profile :: "teacher_create \<Rightarrow> teacher \<Rightarrow> teacher" where
  "set_profile profile_data t =
     t\<lparr>teacher_subjects := tc_subjects profile_data,
       teacher_experience_years := tc_experience_years profile_data,
       teacher_bio := tc_bio profile_data,
       teacher_hourly_rate := tc_hourly_rate profile_data\<rparr>"

definition update_teacher_profile ::
  "db \<Rightarrow> teacher_create \<Rightarrow> user_response \<Rightarrow> string result \<times> db" where
  "update_teacher_profile d profile_data current_user =
     (if resp_role current_user \<noteq> ''teacher''
      then (Inl (HTTPException 403 ''Only teachers can update profile''), d)
      else if \<not> bson_int (tc_experience_years profile_data)
      then (Inl OverflowError, d)
      else (Inr ''Profile updated successfully'',
            d\<lparr>teachers := update_one (\<lambda>t. teacher_user_id t = resp_id current_user)
                             (set_profile profile_data) (teachers d)\<rparr>))"

subsection \<open>Progress\<close>

record progress_stats =
  total_courses :: nat
  average_completion :: real
  total_time_hours :: real

record progress_view =
  view_courses :: "progress list"
  view_stats :: progress_stats
  view_ai_analysis :: progress_analysis

text \<open>
  \<open>progress_body\<close> is the dict the handler \<open>get_student_progress\<close> builds and returns. Its
  \<open>courses\<close> are the progress documents as \<open>find\<close> returned them, read without the projection
  \<open>{"_id": 0}\<close> that the dashboard handler uses. \<open>get_student_progress\<close> is the endpoint:
  the handler followed by the encoding of what it returned.
\<close>

definition progress_body :: "db \<Rightarrow> string \<Rightarrow> progress_view" where
  "progress_body d student_id =
     (let progress_docs =
            to_list 50 (find_docs (\<lambda>p. progress_student_id p = student_id) (progress_coll d));
          n = length progress_docs;
          avg_completion =
            sum_list (map progress_completion_percentage progress_docs) / real (max n 1);
          total_time = sum_list (map progress_time_spent_hours progress_docs)
      in \<lparr>view_courses = progress_docs,
          view_stats = \<lparr>total_courses = n, average_completion = avg_completion,
                        total_time_hours = total_time\<rparr>,
          view_ai_analysis = analyze_progress student_id\<rparr>)"

definition get_student_progress :: "db \<Rightarrow> string \<Rightarrow> progress_view result" where
  "get_student_progress d student_id =
     (let body = progress_body d student_id
      in jsonable_encoder (view_courses body) body)"

subsection \<open>Quiz retrieval\<close>

text \<open>
  The variable \<open>quiz\<close> of \<open>get_course_quiz\<close> holds a stored document (a dict) when
  \<open>find_one\<close> found one, and the model instance \<open>Quiz(...)\<close> built in the branch
  \<open>if not quiz\<close> otherwise. The call \<open>Quiz(**quiz)\<close> needs a mapping after \<open>**\<close>: a dict
  unpacks into the keyword arguments, a model instance raises \<open>TypeError\<close>.
\<close>

datatype 'a py_value = Dict 'a | Model 'a

fun unpack :: "'a py_value \<Rightarrow> 'a result" where
  "unpack (Dict doc) = Inr doc"
| "unpack (Model m) = Inl (TypeError ''argument after ** must be a mapping'')"

definition get_course_quiz ::
  "string \<Rightarrow> string \<Rightarrow> string \<Rightarrow> datetime \<Rightarrow> db \<Rightarrow> string \<Rightarrow> quiz result \<times> db" where
  "get_course_quiz uuid1 uuid2 uuid_quiz now d cid =
     (case find_one (\<lambda>q. quiz_course_id q = cid) (quizzes d) of
        Some doc \<Rightarrow> (unpack (Dict doc), d)
      | None \<Rightarrow>
          (let questions = generate_quiz_questions uuid1 uuid2 cid ''General'';
               qz = \<lparr>quiz_id = uuid_quiz, quiz_course_id = cid, quiz_title = ''Course Assessment'',
                     quiz_questions = questions, quiz_created_at = now\<rparr>;
               d1 = d\<lparr>quizzes := insert_one qz (quizzes d)\<rparr>
           in (unpack (Model qz), d1)))"

subsection \<open>Sample data\<close>

text \<open>Concrete states and requests, on which the theorems below are instantiated.\<close>

definition empty_db :: db where
  "empty_db = \<lparr>users = [], teachers = [], courses = [], progress_coll = [], quizzes = [],
               quiz_submissions = [], community_posts = []\<rparr>"

definition student_1 :: user_response where
  "student_1 = \<lparr>resp_id = ''student_1'', resp_email = ''alex@novazone.edu'',
                resp_full_name = ''Alex Johnson'', resp_role = ''student'',
                resp_profile_image = None, resp_bio = None\<rparr>"

definition teacher_1 :: user_response where
  "teacher_1 = \<lparr>resp_id = ''teacher_1'', resp_email = ''sarah.chen@novazone.edu'',
                resp_full_name = ''Dr. Sarah Chen'', resp_role = ''teacher'',
                resp_profile_image = None, resp_bio = None\<rparr>"

definition quiz_1 :: quiz where
  "quiz_1 = \<lparr>quiz_id = ''quiz_1'', quiz_course_id = ''course_1'', quiz_title = ''Course Assessment'',
             quiz_questions = generate_quiz_questions ''q1'' ''q2'' ''course_1'' ''General'',
             quiz_created_at = 0\<rparr>"

definition empty_quiz :: quiz where
  "empty_quiz = \<lparr>quiz_id = ''quiz_0'', quiz_course_id = ''course_0'', quiz_title = ''Draft'',
                 quiz_questions = [], quiz_created_at = 0\<rparr>"

definition quiz_db :: db where
  "quiz_db = empty_db\<lparr>quizzes := [empty_quiz, quiz_1]\<rparr>"

definition submission_for :: "string \<Rightarrow> int list \<Rightarrow> quiz_submission" where
  "submission_for qid answers =
     \<lparr>submission_quiz_id = qid, submission_student_id = ''somebody'',
      submission_answers = answers, submission_score = 0, submission_completed_at = 10\<rparr>"

definition alex_doc :: user_doc where
  "alex_doc = \<lparr>user_id = ''student_1'', user_email = ''alex@novazone.edu'',
               user_full_name = ''Alex Johnson'', user_role = ''student'', user_created_at = 0,
               user_profile_image = None, user_bio = None, hashed_password = ''$2b$12$abc''\<rparr>"

definition users_db :: db where
  "users_db = empty_db\<lparr>users := [alex_doc]\<rparr>"

definition subject_claim :: "string \<Rightarrow> payload" where
  "subject_claim uid = \<lparr>claim_sub = Some uid, claim_exp = None\<rparr>"

definition expired_token :: token where
  "expired_token = create_access_token 1000 (subject_claim ''student_1'') (Some 60)"

definition fresh_token :: token where
  "fresh_token = create_access_token 1000 (subject_claim ''student_1'') None"

definition forged_token :: token where
  "forged_token = jwt_encode (subject_claim ''student_1'') ''not-the-secret''"

definition anonymous_token :: token where
  "anonymous_token = jwt_encode \<lparr>claim_sub = None, claim_exp = Some 5000\<rparr> SECRET_KEY"

definition stranger_token :: token where
  "stranger_token = create_access_token 1000 (subject_claim ''student_9'') None"

definition new_teacher :: user_create where
  "new_teacher = \<lparr>uc_email = ''sarah.chen@novazone.edu'', uc_password = ''s3cret'',
                  uc_full_name = ''Dr. Sarah Chen'', uc_role = ''teacher''\<rparr>"

definition sample_hash :: "string \<Rightarrow> string" where
  "sample_hash password = ''$2b$12$'' @ rev password"

definition seed_course_1 :: course where
  "seed_course_1 =
     \<lparr>course_id = ''course_1'', course_title = ''Introduction to Python Programming'',
      course_description = ''Learn Python from scratch with hands-on projects'',
      course_teacher_id = ''teacher_1'', course_teacher_name = ''Dr. Sarah Chen'',
      course_subject = ''Programming'', course_difficulty_level = ''beginner'',
      course_duration_hours = 40, course_created_at = 0, course_image = None,
      course_enrolled_students = [''student_1'', ''student_2''], course_rating = 4.8,
      course_total_lessons = 20\<rparr>"

definition seed_course_2 :: course where
  "seed_course_2 =
     \<lparr>course_id = ''course_2'', course_title = ''Data Structures & Algorithms'',
      course_description = ''Master fundamental CS concepts'',
      course_teacher_id = ''teacher_2'', course_teacher_name = ''Prof. Michael Rodriguez'',
      course_subject = ''Computer Science'', course_difficulty_level = ''intermediate'',
      course_duration_hours = 60, course_created_at = 0, course_image = None,
      course_enrolled_students = [''student_1''], course_rating = 4.7,
      course_total_lessons = 30\<rparr>"

definition seed_teacher_1 :: teacher where
  "seed_teacher_1 =
     \<lparr>teacher_id = ''teacher_1'', teacher_user_id = ''teacher_1'',
      teacher_full_name = ''Dr. Sarah Chen'', teacher_email = ''sarah.chen@novazone.edu'',
      teacher_subjects = [''Programming'', ''Web Development'', ''Data Science''],
      teacher_experience_years = 12, teacher_rating = 4.9, teacher_total_students = 150,
      teacher_bio = Some ''Passionate educator'', teacher_profile_image = None,
      teacher_hourly_rate = Some 75\<rparr>"

definition seed_post :: "string \<Rightarrow> datetime \<Rightarrow> community_post" where
  "seed_post pid created =
     \<lparr>post_id = pid, post_author_id = ''student_1'', post_author_name = ''Alex Johnson'',
      post_title = ''Best practices for Python coding?'', post_content = ''I am new to Python'',
      post_category = ''question'', post_created_at = created, post_likes = 5,
      post_replies = []\<rparr>"

definition seeded_db :: db where
  "seeded_db = empty_db\<lparr>courses := [seed_course_1, seed_course_2], teachers := [seed_teacher_1],
                         community_posts := [seed_post ''post_1'' 1, seed_post ''post_2'' 2]\<rparr>"

text \<open>Copies of the first seeded course under other identifiers, to fill a collection.\<close>

definition course_copy :: "nat \<Rightarrow> course" where
  "course_copy n = seed_course_1\<lparr>course_id := ''course_1_'' @ replicate n (CHR ''i'')\<rparr>"

definition crowded_db :: db where
  "crowded_db = empty_db\<lparr>courses := map course_copy [0..<10] @ [seed_course_2]\<rparr>"


definition progress_copy :: "nat \<Rightarrow> progress" where
  "progress_copy n =
     \<lparr>progress_id = ''progress_'' @ replicate n (CHR ''i''), progress_student_id = ''student_1'',
      progress_course_id = ''course_1'',
      progress_course_title = ''Introduction to Python Programming'',
      progress_completion_percentage = 50, progress_last_accessed = 0,
      progress_time_spent_hours = 2, progress_quiz_scores = []\<rparr>"

definition busy_db :: db where
  "busy_db = empty_db\<lparr>progress_coll := map progress_copy [0..<51]\<rparr>"

definition two_records_db :: db where
  "two_records_db = empty_db\<lparr>progress_coll := [progress_copy 0, progress_copy 1]\<rparr>"

definition bare_profile :: teacher_create where
  "bare_profile = \<lparr>tc_subjects = [''Programming''], tc_experience_years = 13, tc_bio = None,
                   tc_hourly_rate = None\<rparr>"

section \<open>Properties\<close>

subsection \<open>Quiz scoring\<close>

lemma matching_Cons:
  "{j. j < length (a # rest) \<and> i + j < length qs \<and> (a # rest) ! j = correct_answer (qs ! (i + j))}
   = (if i < length qs \<and> a = correct_answer (qs ! i) then {0} else {}) \<union>
     Suc ` {j. j < length rest \<and> Suc i + j < length qs \<and> rest ! j = correct_answer (qs ! (Suc i + j))}"
  (is "?L = ?R")
proof (rule set_eqI)
  fix j show "j \<in> ?L \<longleftrightarrow> j \<in> ?R"
    by (cases j) (auto simp: image_iff)
qed

lemma count_correct_card:
  "count_correct qs i as c =
     c + card {j. j < length as \<and> i + j < length qs \<and> as ! j = correct_answer (qs ! (i + j))}"
proof (induction as arbitrary: i c)
  case Nil
  then show ?case by simp
next
  case (Cons a rest)
  let ?T = "{j. j < length rest \<and> Suc i + j < length qs \<and> rest ! j = correct_answer (qs ! (Suc i + j))}"
  let ?hit = "i < length qs \<and> a = correct_answer (qs ! i)"
  have fin: "finite (Suc ` ?T)" by simp
  have card_img: "card (Suc ` ?T) = card ?T"
    by (rule card_image) simp
  have fresh: "0 \<notin> Suc ` ?T" by auto
  have split: "card ((if ?hit then {0} else {}) \<union> Suc ` ?T) = (if ?hit then 1 else 0) + card ?T"
    using fin fresh card_img by (simp del: finite_imageI)
  have "count_correct qs i (a # rest) c =
          count_correct qs (Suc i) rest (if ?hit then c + 1 else c)"
    by simp
  also have "\<dots> = (if ?hit then c + 1 else c) + card ?T"
    by (rule Cons.IH)
  also have "\<dots> = c + card ((if ?hit then {0} else {}) \<union> Suc ` ?T)"
    unfolding split by simp
  finally show ?case
    unfolding matching_Cons .
qed

text \<open>
  C1. When the submission's quiz is stored and has at least one question, \<open>submit_quiz\<close>
  computes, for every answer list, a count that is the number of positions within both the
  answers and the questions at which the answer equals the question's \<open>correct_answer\<close>,
  and a score that is this count divided by the number of questions, times 100. When every
  answer fits in 8 bytes the handler stores the submission with that score and returns the
  score, the count and the number of questions; otherwise storing raises \<open>OverflowError\<close>
  and nothing is stored. For a quiz whose two questions have the correct answers 1 and 2,
  the answers \<open>[1, 2]\<close> score 100, \<open>[0, 0]\<close> score 0 and the short list \<open>[1]\<close> scores 50.
\<close>

theorem submit_quiz_score:
  assumes found: "find_one (\<lambda>q. quiz_id q = submission_quiz_id s) (quizzes d) = Some qz"
    and nonempty: "quiz_questions qz \<noteq> []"
  shows "\<exists>n score.
           n = card {i. i < length (submission_answers s) \<and> i < length (quiz_questions qz) \<and>
                        submission_answers s ! i = correct_answer (quiz_questions qz ! i)} \<and>
           score = real n / real (length (quiz_questions qz)) * 100 \<and>
           calculate_score (quiz_questions qz) (submission_answers s)
             = Inr (score, n, length (quiz_questions qz)) \<and>
           (list_all bson_int (submission_answers s) \<longrightarrow>
              submit_quiz d s u =
                (Inr \<lparr>result_score = score, result_correct_answers = n,
                      result_total_questions = length (quiz_questions qz),
                      result_percentage = score\<rparr>,
                 d\<lparr>quiz_submissions := quiz_submissions d @
                      [s\<lparr>submission_score := score, submission_student_id := resp_id u\<rparr>]\<rparr>)) \<and>
           (\<not> list_all bson_int (submission_answers s) \<longrightarrow>
              submit_quiz d s u = (Inl OverflowError, d)) \<and>
           (map correct_answer (quiz_questions qz) = [1, 2] \<longrightarrow>
              (submission_answers s = [1, 2] \<longrightarrow>
                 (\<exists>r. fst (submit_quiz d s u) = Inr r \<and> result_score r = 100)) \<and>
              (submission_answers s = [0, 0] \<longrightarrow>
                 (\<exists>r. fst (submit_quiz d s u) = Inr r \<and> result_score r = 0)) \<and>
              (submission_answers s = [1] \<longrightarrow>
                 (\<exists>r. fst (submit_quiz d s u) = Inr r \<and> result_score r = 50)))"
proof -
  let ?qs = "quiz_questions qz" and ?as = "submission_answers s"
  let ?n = "count_correct ?qs 0 ?as 0"
  let ?score = "real ?n / real (length ?qs) * 100"
  have count: "?n = card {i. i < length ?as \<and> i < length ?qs \<and> ?as ! i = correct_answer (?qs ! i)}"
    using count_correct_card [of ?qs 0 ?as 0] by simp
  have calc: "calculate_score ?qs ?as = Inr (?score, ?n, length ?qs)"
    using nonempty by (simp add: calculate_score_def Let_def)
  have fits: "list_all bson_int ?as \<longrightarrow>
      submit_quiz d s u =
        (Inr \<lparr>result_score = ?score, result_correct_answers = ?n,
              result_total_questions = length ?qs, result_percentage = ?score\<rparr>,
         d\<lparr>quiz_submissions := quiz_submissions d @
              [s\<lparr>submission_score := ?score, submission_student_id := resp_id u\<rparr>]\<rparr>)"
    using found by (simp add: submit_quiz_def calc insert_one_def)
  have over: "\<not> list_all bson_int ?as \<longrightarrow> submit_quiz d s u = (Inl OverflowError, d)"
    using found by (simp add: submit_quiz_def calc)
  have two: "map correct_answer ?qs = [1, 2] \<longrightarrow>
      (?as = [1, 2] \<longrightarrow> (\<exists>r. fst (submit_quiz d s u) = Inr r \<and> result_score r = 100)) \<and>
      (?as = [0, 0] \<longrightarrow> (\<exists>r. fst (submit_quiz d s u) = Inr r \<and> result_score r = 0)) \<and>
      (?as = [1] \<longrightarrow> (\<exists>r. fst (submit_quiz d s u) = Inr r \<and> result_score r = 50))"
  proof
    assume m: "map correct_answer ?qs = [1, 2]"
    then obtain q1 q2 where qs: "?qs = [q1, q2]"
      and c: "correct_answer q1 = 1" "correct_answer q2 = 2"
      by (auto simp: map_eq_Cons_conv)
    show "(?as = [1, 2] \<longrightarrow> (\<exists>r. fst (submit_quiz d s u) = Inr r \<and> result_score r = 100)) \<and>
      (?as = [0, 0] \<longrightarrow> (\<exists>r. fst (submit_quiz d s u) = Inr r \<and> result_score r = 0)) \<and>
      (?as = [1] \<longrightarrow> (\<exists>r. fst (submit_quiz d s u) = Inr r \<and> result_score r = 50))"
      using found by (simp add: submit_quiz_def calculate_score_def Let_def qs c bson_int_def)
  qed
  show ?thesis
    using count calc fits over two by (intro exI [of _ ?n] exI [of _ ?score]) simp
qed

theorem submit_quiz_score_witness:
  "find_one (\<lambda>q. quiz_id q = submission_quiz_id (submission_for ''quiz_1'' [1])) (quizzes quiz_db)
     = Some quiz_1
   \<and> quiz_questions quiz_1 \<noteq> []
   \<and> (\<exists>r. fst (submit_quiz quiz_db (submission_for ''quiz_1'' [1]) student_1) = Inr r \<and>
           result_score r = 50)
   \<and> submit_quiz quiz_db (submission_for ''quiz_1'' [9223372036854775808, 2]) student_1
       = (Inl OverflowError, quiz_db)"
proof -
  have found: "find_one (\<lambda>q. quiz_id q = submission_quiz_id (submission_for ''quiz_1'' [1]))
                 (quizzes quiz_db) = Some quiz_1"
    by (simp add: find_one_def quiz_db_def submission_for_def quiz_1_def empty_quiz_def)
  have found': "find_one (\<lambda>q. quiz_id q
                   = submission_quiz_id (submission_for ''quiz_1'' [9223372036854775808, 2]))
                 (quizzes quiz_db) = Some quiz_1"
    by (simp add: find_one_def quiz_db_def submission_for_def quiz_1_def empty_quiz_def)
  have nonempty: "quiz_questions quiz_1 \<noteq> []"
    by (simp add: quiz_1_def generate_quiz_questions_def)
  have answers: "map correct_answer (quiz_questions quiz_1) = [1, 2]"
    by (simp add: quiz_1_def generate_quiz_questions_def)
  have short: "submission_answers (submission_for ''quiz_1'' [1]) = [1]"
    by (simp add: submission_for_def)
  have huge: "\<not> list_all bson_int
                 (submission_answers (submission_for ''quiz_1'' [9223372036854775808, 2]))"
    by (simp add: submission_for_def bson_int_def)
  have a: "\<exists>r. fst (submit_quiz quiz_db (submission_for ''quiz_1'' [1]) student_1) = Inr r \<and>
           result_score r = 50"
    using submit_quiz_score [OF found nonempty, of student_1] answers short by blast
  have b: "submit_quiz quiz_db (submission_for ''quiz_1'' [9223372036854775808, 2]) student_1
       = (Inl OverflowError, quiz_db)"
    using submit_quiz_score [OF found' nonempty, of student_1] huge by blast
  show ?thesis using found nonempty a b by simp
qed

subsection \<open>Division by the question count\<close>

lemma find_one_Some_mem: "find_one P xs = Some x \<Longrightarrow> x \<in> set xs \<and> P x"
  by (auto simp: find_one_def find_Some_iff)

text \<open>
  C10. \<open>submit_quiz\<close> divides by the number of questions of the quiz it found, without a
  guard: when that quiz has no question the handler raises \<open>ZeroDivisionError\<close> (an internal
  server error) and stores nothing. When the quiz has a question the division does not
  fail, and the handler returns a result if every answer fits in 8 bytes. If every stored
  quiz has at least one question, the error cannot occur.
\<close>

theorem submit_quiz_division:
  "(\<forall>qz. find_one (\<lambda>q. quiz_id q = submission_quiz_id s) (quizzes d) = Some qz \<longrightarrow>
      (quiz_questions qz = [] \<longrightarrow>
         submit_quiz d s u = (Inl ZeroDivisionError, d) \<and> status_code ZeroDivisionError = 500) \<and>
      (quiz_questions qz \<noteq> [] \<longrightarrow>
         fst (submit_quiz d s u) \<noteq> Inl ZeroDivisionError \<and>
         (list_all bson_int (submission_answers s) \<longrightarrow> (\<exists>r. fst (submit_quiz d s u) = Inr r)))) \<and>
   ((\<forall>q \<in> set (quizzes d). quiz_questions q \<noteq> []) \<longrightarrow>
      fst (submit_quiz d s u) \<noteq> Inl ZeroDivisionError)"
proof (intro conjI allI impI)
  fix qz
  assume "find_one (\<lambda>q. quiz_id q = submission_quiz_id s) (quizzes d) = Some qz"
    and "quiz_questions qz = []"
  then show "submit_quiz d s u = (Inl ZeroDivisionError, d)"
    by (simp add: submit_quiz_def calculate_score_def Let_def)
next
  fix qz
  assume "find_one (\<lambda>q. quiz_id q = submission_quiz_id s) (quizzes d) = Some qz"
    and "quiz_questions qz \<noteq> []"
  then show "fst (submit_quiz d s u) \<noteq> Inl ZeroDivisionError"
    by (simp add: submit_quiz_def calculate_score_def Let_def)
next
  fix qz
  assume "find_one (\<lambda>q. quiz_id q = submission_quiz_id s) (quizzes d) = Some qz"
    and "quiz_questions qz \<noteq> []" and "list_all bson_int (submission_answers s)"
  then show "\<exists>r. fst (submit_quiz d s u) = Inr r"
    by (simp add: submit_quiz_def calculate_score_def Let_def)
next
  assume all: "\<forall>q \<in> set (quizzes d). quiz_questions q \<noteq> []"
  show "fst (submit_quiz d s u) \<noteq> Inl ZeroDivisionError"
  proof (cases "find_one (\<lambda>q. quiz_id q = submission_quiz_id s) (quizzes d)")
    case None
    then show ?thesis by (simp add: submit_quiz_def)
  next
    case (Some qz)
    with all find_one_Some_mem [OF Some] have "quiz_questions qz \<noteq> []" by blast
    with Some show ?thesis by (simp add: submit_quiz_def calculate_score_def Let_def)
  qed
qed simp

theorem submit_quiz_division_witness:
  "submit_quiz quiz_db (submission_for ''quiz_0'' [1, 2]) student_1
     = (Inl ZeroDivisionError, quiz_db)
   \<and> (\<exists>r. fst (submit_quiz quiz_db (submission_for ''quiz_1'' [1, 2]) student_1) = Inr r)
   \<and> fst (submit_quiz (empty_db\<lparr>quizzes := [quiz_1]\<rparr>) (submission_for ''quiz_1'' [1, 2]) student_1)
       \<noteq> Inl ZeroDivisionError"
proof -
  have f0: "find_one (\<lambda>q. quiz_id q = submission_quiz_id (submission_for ''quiz_0'' [1, 2]))
              (quizzes quiz_db) = Some empty_quiz"
    by (simp add: find_one_def quiz_db_def submission_for_def quiz_1_def empty_quiz_def)
  have f1: "find_one (\<lambda>q. quiz_id q = submission_quiz_id (submission_for ''quiz_1'' [1, 2]))
              (quizzes quiz_db) = Some quiz_1"
    by (simp add: find_one_def quiz_db_def submission_for_def quiz_1_def empty_quiz_def)
  have e0: "quiz_questions empty_quiz = []" by (simp add: empty_quiz_def)
  have e1: "quiz_questions quiz_1 \<noteq> []" by (simp add: quiz_1_def generate_quiz_questions_def)
  have fits: "list_all bson_int (submission_answers (submission_for ''quiz_1'' [1, 2]))"
    by (simp add: submission_for_def bson_int_def)
  have all: "\<forall>q \<in> set (quizzes (empty_db\<lparr>quizzes := [quiz_1]\<rparr>)). quiz_questions q \<noteq> []"
    using e1 by simp
  show ?thesis
    using submit_quiz_division [of "submission_for ''quiz_0'' [1, 2]" quiz_db student_1]
      submit_quiz_division [of "submission_for ''quiz_1'' [1, 2]" quiz_db student_1]
      submit_quiz_division [of "submission_for ''quiz_1'' [1, 2]" "empty_db\<lparr>quizzes := [quiz_1]\<rparr>" student_1]
      f0 f1 e0 e1 fits all
    by blast
qed

subsection \<open>Lookups and updates\<close>

lemma find_one_None_iff: "find_one P xs = None \<longleftrightarrow> (\<forall>x \<in> set xs. \<not> P x)"
  by (auto simp: find_one_def find_None_iff)

lemma find_one_Some_ex: "(\<exists>x. find_one P xs = Some x) \<longleftrightarrow> (\<exists>x \<in> set xs. P x)"
  using find_one_None_iff [of P xs] by (cases "find_one P xs") auto

lemma find_one_update_one:
  assumes "\<And>x. Q (f x) = Q x"
  shows "find_one Q (update_one Q f xs) = map_option f (find_one Q xs)"
  using assms by (induction xs) (auto simp: find_one_def)

lemma update_one_idem:
  assumes "\<And>x. Q (f x) = Q x" and "\<And>x. f (f x) = f x"
  shows "update_one Q f (update_one Q f xs) = update_one Q f xs"
  using assms by (induction xs) auto

lemma update_one_absent: "find_one Q xs = None \<Longrightarrow> update_one Q f xs = xs"
  by (induction xs) (auto simp: find_one_def split: if_splits)

lemma length_update_one: "length (update_one Q f xs) = length xs"
  by (induction xs) auto

lemma nth_update_one:
  "i < length xs \<Longrightarrow>
   update_one Q f xs ! i = (if Q (xs ! i) \<and> (\<forall>j < i. \<not> Q (xs ! j)) then f (xs ! i) else xs ! i)"
proof (induction xs arbitrary: i)
  case Nil
  then show ?case by simp
next
  case (Cons x xs)
  show ?case
  proof (cases i)
    case 0
    then show ?thesis by simp
  next
    case (Suc k)
    with Cons.prems have k: "k < length xs" by simp
    have shift: "(\<forall>j < Suc k. \<not> Q ((x # xs) ! j)) \<longleftrightarrow> \<not> Q x \<and> (\<forall>j < k. \<not> Q (xs ! j))"
      by (auto simp: less_Suc_eq_0_disj)
    show ?thesis
      unfolding Suc using Cons.IH [OF k] shift by auto
  qed
qed

subsection \<open>Registration\<close>

text \<open>
  C2. \<open>register\<close> fails with status 400 exactly when a stored user has the email of the
  request, and then leaves the database as it was. Otherwise it appends one user document,
  which holds the hash of the password, appends a teacher profile with no subjects and the
  new user's id as \<open>user_id\<close> exactly when the role is \<open>teacher\<close>, touches no other
  collection, and returns a bearer token for the new id with the public view of the user
  (a \<open>user_response\<close> has no password field).
\<close>

theorem register_conflict:
  "(fst (register h uid tid created issued d req) = Inl (HTTPException 400 ''Email already registered'')
      \<longleftrightarrow> (\<exists>u \<in> set (users d). user_email u = uc_email req))
   \<and> ((\<exists>u \<in> set (users d). user_email u = uc_email req) \<longrightarrow>
        snd (register h uid tid created issued d req) = d)
   \<and> ((\<forall>u \<in> set (users d). user_email u \<noteq> uc_email req) \<longrightarrow>
        fst (register h uid tid created issued d req) =
          Inr \<lparr>access_token = Signed SECRET_KEY \<lparr>claim_sub = Some uid, claim_exp = Some (issued + 900)\<rparr>,
               token_type = ''bearer'',
               token_user = \<lparr>resp_id = uid, resp_email = uc_email req,
                             resp_full_name = uc_full_name req, resp_role = uc_role req,
                             resp_profile_image = None, resp_bio = None\<rparr>\<rparr>
        \<and> users (snd (register h uid tid created issued d req)) =
            users d @ [\<lparr>user_id = uid, user_email = uc_email req, user_full_name = uc_full_name req,
                         user_role = uc_role req, user_created_at = created,
                         user_profile_image = None, user_bio = None,
                         hashed_password = h (uc_password req)\<rparr>]
        \<and> teachers (snd (register h uid tid created issued d req)) =
            (if uc_role req = ''teacher''
             then teachers d @ [\<lparr>teacher_id = tid, teacher_user_id = uid,
                                  teacher_full_name = uc_full_name req, teacher_email = uc_email req,
                                  teacher_subjects = [], teacher_experience_years = 0,
                                  teacher_rating = 4.5, teacher_total_students = 0,
                                  teacher_bio = None, teacher_profile_image = None,
                                  teacher_hourly_rate = None\<rparr>]
             else teachers d)
        \<and> courses (snd (register h uid tid created issued d req)) = courses d
        \<and> progress_coll (snd (register h uid tid created issued d req)) = progress_coll d
        \<and> quizzes (snd (register h uid tid created issued d req)) = quizzes d
        \<and> quiz_submissions (snd (register h uid tid created issued d req)) = quiz_submissions d
        \<and> community_posts (snd (register h uid tid created issued d req)) = community_posts d)"
proof (cases "find_one (\<lambda>u. user_email u = uc_email req) (users d)")
  case None
  then have free: "\<forall>u \<in> set (users d). user_email u \<noteq> uc_email req"
    by (simp add: find_one_None_iff)
  show ?thesis
    using None free
    by (simp add: register_def Let_def insert_one_def create_access_token_def jwt_encode_def
        UserResponse_def)
next
  case (Some existing)
  then have taken: "\<exists>u \<in> set (users d). user_email u = uc_email req"
    using find_one_Some_ex [of "\<lambda>u. user_email u = uc_email req" "users d"] by blast
  show ?thesis
    using Some taken by (auto simp: register_def)
qed

theorem register_conflict_witness:
  "fst (register sample_hash ''u1'' ''t1'' 100 101 empty_db new_teacher) =
     Inr \<lparr>access_token = Signed SECRET_KEY \<lparr>claim_sub = Some ''u1'', claim_exp = Some 1001\<rparr>,
          token_type = ''bearer'',
          token_user = \<lparr>resp_id = ''u1'', resp_email = ''sarah.chen@novazone.edu'',
                        resp_full_name = ''Dr. Sarah Chen'', resp_role = ''teacher'',
                        resp_profile_image = None, resp_bio = None\<rparr>\<rparr>
   \<and> map teacher_user_id
         (teachers (snd (register sample_hash ''u1'' ''t1'' 100 101 empty_db new_teacher))) = [''u1'']
   \<and> map hashed_password
         (users (snd (register sample_hash ''u1'' ''t1'' 100 101 empty_db new_teacher)))
       = [''$2b$12$terc3s'']
   \<and> register sample_hash ''u2'' ''t2'' 200 201
        (snd (register sample_hash ''u1'' ''t1'' 100 101 empty_db new_teacher)) new_teacher
      = (Inl (HTTPException 400 ''Email already registered''),
         snd (register sample_hash ''u1'' ''t1'' 100 101 empty_db new_teacher))"
proof -
  let ?d1 = "snd (register sample_hash ''u1'' ''t1'' 100 101 empty_db new_teacher)"
  have free: "\<forall>u \<in> set (users empty_db). user_email u \<noteq> uc_email new_teacher"
    by (simp add: empty_db_def)
  note first = register_conflict [of sample_hash "''u1''" "''t1''" 100 101 empty_db new_teacher]
  have users1: "users ?d1 = [\<lparr>user_id = ''u1'', user_email = uc_email new_teacher,
        user_full_name = uc_full_name new_teacher, user_role = uc_role new_teacher,
        user_created_at = 100, user_profile_image = None, user_bio = None,
        hashed_password = sample_hash (uc_password new_teacher)\<rparr>]"
    using first free by (simp add: empty_db_def)
  have taken: "\<exists>u \<in> set (users ?d1). user_email u = uc_email new_teacher"
    unfolding users1 by simp
  note second = register_conflict [of sample_hash "''u2''" "''t2''" 200 201 ?d1 new_teacher]
  have r2: "register sample_hash ''u2'' ''t2'' 200 201 ?d1 new_teacher
              = (Inl (HTTPException 400 ''Email already registered''), ?d1)"
    using second taken by (simp add: prod_eq_iff)
  have t1: "map teacher_user_id (teachers ?d1) = [''u1'']"
    using first free by (simp add: empty_db_def new_teacher_def)
  have h1: "map hashed_password (users ?d1) = [''$2b$12$terc3s'']"
    unfolding users1 by (simp add: new_teacher_def sample_hash_def)
  have f1: "fst (register sample_hash ''u1'' ''t1'' 100 101 empty_db new_teacher) =
     Inr \<lparr>access_token = Signed SECRET_KEY \<lparr>claim_sub = Some ''u1'', claim_exp = Some 1001\<rparr>,
          token_type = ''bearer'',
          token_user = \<lparr>resp_id = ''u1'', resp_email = ''sarah.chen@novazone.edu'',
                        resp_full_name = ''Dr. Sarah Chen'', resp_role = ''teacher'',
                        resp_profile_image = None, resp_bio = None\<rparr>\<rparr>"
    using first free by (simp add: new_teacher_def)
  show ?thesis using f1 t1 h1 r2 by simp
qed

subsection \<open>Resolving the current user\<close>

lemmas token_defs = expired_token_def fresh_token_def forged_token_def anonymous_token_def
  stranger_token_def subject_claim_def create_access_token_def jwt_encode_def jwt_decode_def
  SECRET_KEY_def

lemma jwt_no_PyJSONError: "jwt_getattr ''PyJSONError'' = None"
  by (simp add: jwt_getattr_def)

text \<open>
  Whatever the body of the \<open>try\<close> statement raises, the handler clause raises
  \<open>AttributeError\<close> in its place; a result of the body is returned as it is.
\<close>

lemma get_current_user_cases:
  "get_current_user now d tok =
     (case try_body now d tok of Inr u \<Rightarrow> Inr u | Inl e \<Rightarrow> Inl (AttributeError ''PyJSONError''))"
  by (simp add: get_current_user_def jwt_no_PyJSONError split: sum.splits)

lemma get_current_user_never_401:
  "get_current_user now d tok \<noteq> Inl (HTTPException 401 detail)"
  by (simp add: get_current_user_cases split: sum.splits)

lemma get_current_user_valid:
  assumes "jwt_decode now tok SECRET_KEY = Inr p" and "claim_sub p = Some uid"
    and "find_one (\<lambda>u. user_id u = uid) (users d) = Some user_doc"
  shows "get_current_user now d tok = Inr (UserResponse user_doc)"
  using assms by (simp add: get_current_user_cases try_body_def)

text \<open>
  C3. The claim is that \<open>get_current_user\<close> answers 401 to a token that is expired,
  undecodable or wrongly signed, that carries no subject, or whose subject is not a stored
  user. The code raises \<open>HTTPException(401)\<close> in the body of its \<open>try\<close> statement, but the
  clause \<open>except jwt.PyJSONError\<close> names an attribute the module \<open>jwt\<close> does not have
  (the class is \<open>PyJWTError\<close>), so each of these five requests ends in \<open>AttributeError\<close>,
  which is answered with status 500. A valid token of a stored user resolves to that user.
\<close>

theorem get_current_user_rejects_with_500:
  "get_current_user 2000 users_db expired_token = Inl (AttributeError ''PyJSONError'')
   \<and> get_current_user 2000 users_db (Undecodable ''garbage'') = Inl (AttributeError ''PyJSONError'')
   \<and> get_current_user 2000 users_db forged_token = Inl (AttributeError ''PyJSONError'')
   \<and> get_current_user 2000 users_db anonymous_token = Inl (AttributeError ''PyJSONError'')
   \<and> get_current_user 1500 users_db stranger_token = Inl (AttributeError ''PyJSONError'')
   \<and> status_code (AttributeError ''PyJSONError'') = 500
   \<and> get_current_user 1500 users_db fresh_token = Inr student_1"
  by (simp add: get_current_user_cases try_body_def token_defs users_db_def empty_db_def
      alex_doc_def find_one_def UserResponse_def student_1_def)

subsection \<open>Quiz retrieval\<close>

lemma get_course_quiz_absent:
  assumes "find_one (\<lambda>q. quiz_course_id q = cid) (quizzes d) = None"
  shows "get_course_quiz u1 u2 u3 now d cid =
           (Inl (TypeError ''argument after ** must be a mapping''),
            d\<lparr>quizzes := quizzes d @
                 [\<lparr>quiz_id = u3, quiz_course_id = cid, quiz_title = ''Course Assessment'',
                   quiz_questions = generate_quiz_questions u1 u2 cid ''General'',
                   quiz_created_at = now\<rparr>]\<rparr>)"
  using assms by (simp add: get_course_quiz_def Let_def insert_one_def)

lemma get_course_quiz_present:
  assumes "find_one (\<lambda>q. quiz_course_id q = cid) (quizzes d) = Some qz"
  shows "get_course_quiz u1 u2 u3 now d cid = (Inr qz, d)"
  using assms by (simp add: get_course_quiz_def)

text \<open>
  C8. The claim is that \<open>get_course_quiz\<close> returns the stored quiz of the course, and
  otherwise generates a quiz, stores it and returns it. On a database without a quiz for
  \<open>course_1\<close> the first call stores the generated quiz and then raises \<open>TypeError\<close> at
  \<open>Quiz(**quiz)\<close>, where \<open>quiz\<close> is a model instance and not a dict: it returns nothing.
  The second call finds the quiz the first one stored, returns it and inserts nothing.
\<close>

theorem get_course_quiz_first_call_raises:
  "get_course_quiz ''q1'' ''q2'' ''quiz_1'' 0 empty_db ''course_1''
     = (Inl (TypeError ''argument after ** must be a mapping''), empty_db\<lparr>quizzes := [quiz_1]\<rparr>)
   \<and> status_code (TypeError ''argument after ** must be a mapping'') = 500
   \<and> get_course_quiz ''q3'' ''q4'' ''quiz_2'' 7 (empty_db\<lparr>quizzes := [quiz_1]\<rparr>) ''course_1''
     = (Inr quiz_1, empty_db\<lparr>quizzes := [quiz_1]\<rparr>)"
  by (simp add: get_course_quiz_def find_one_def empty_db_def quiz_1_def insert_one_def Let_def)

subsection \<open>Enrollment\<close>

lemma add_to_set_idem: "add_to_set x (add_to_set x xs) = add_to_set x xs"
  by (simp add: add_to_set_def)

lemma distinct_add_to_set: "distinct xs \<Longrightarrow> distinct (add_to_set x xs)"
  by (simp add: add_to_set_def)

lemma count_list_distinct: "distinct xs \<Longrightarrow> x \<in> set xs \<Longrightarrow> count_list xs x = 1"
  by (induction xs) auto

text \<open>
  What a student's call does: the course looked up after the update is the course found
  before it, with the student added.
\<close>

lemma enroll_student:
  assumes "resp_role u = ''student''"
  shows "enroll_in_course uuid now d cid u =
    (Inr ''Successfully enrolled in course'',
     d\<lparr>courses := update_one (\<lambda>c. course_id c = cid)
                    (\<lambda>c. c\<lparr>course_enrolled_students :=
                              add_to_set (resp_id u) (course_enrolled_students c)\<rparr>)
                    (courses d),
       progress_coll :=
         (case find_one (\<lambda>c. course_id c = cid) (courses d) of
            None \<Rightarrow> progress_coll d
          | Some c \<Rightarrow> progress_coll d @
              [\<lparr>progress_id = uuid, progress_student_id = resp_id u, progress_course_id = cid,
                progress_course_title = course_title c, progress_completion_percentage = 0,
                progress_last_accessed = now, progress_time_spent_hours = 0,
                progress_quiz_scores = []\<rparr>])\<rparr>)"
proof -
  let ?f = "\<lambda>c. c\<lparr>course_enrolled_students := add_to_set (resp_id u) (course_enrolled_students c)\<rparr>"
  have look: "find_one (\<lambda>c. course_id c = cid) (update_one (\<lambda>c. course_id c = cid) ?f (courses d))
                = map_option ?f (find_one (\<lambda>c. course_id c = cid) (courses d))"
    by (rule find_one_update_one) simp
  show ?thesis
    using assms
    by (cases "find_one (\<lambda>c. course_id c = cid) (courses d)")
       (simp_all add: enroll_in_course_def Let_def look insert_one_def)
qed

text \<open>
  C4. \<open>enroll_in_course\<close> fails with status 403 and changes nothing unless the actor's role
  is \<open>student\<close>. When no course has the id, a student's call changes nothing, so no progress
  record is created. When the course exists and its \<open>enrolled_students\<close> holds no id twice,
  then after two calls by the same student the course holds that student's id exactly once
  (the second call leaves the courses as the first left them), while the progress
  collection has grown by two records for that student and course, one per call.
\<close>

theorem enroll_in_course_spec:
  "(resp_role u \<noteq> ''student'' \<longrightarrow>
      enroll_in_course uuid now d cid u
        = (Inl (HTTPException 403 ''Only students can enroll in courses''), d))
   \<and> (resp_role u = ''student'' \<longrightarrow>
        find_one (\<lambda>c. course_id c = cid) (courses d) = None \<longrightarrow>
        enroll_in_course uuid now d cid u = (Inr ''Successfully enrolled in course'', d))
   \<and> (\<forall>c. resp_role u = ''student'' \<longrightarrow>
        find_one (\<lambda>c. course_id c = cid) (courses d) = Some c \<longrightarrow>
        distinct (course_enrolled_students c) \<longrightarrow>
        (\<exists>c'. find_one (\<lambda>c. course_id c = cid)
                 (courses (snd (enroll_in_course uuid' now' (snd (enroll_in_course uuid now d cid u)) cid u)))
                 = Some c'
             \<and> count_list (course_enrolled_students c') (resp_id u) = 1
             \<and> set (course_enrolled_students c') = insert (resp_id u) (set (course_enrolled_students c)))
        \<and> courses (snd (enroll_in_course uuid' now' (snd (enroll_in_course uuid now d cid u)) cid u))
            = courses (snd (enroll_in_course uuid now d cid u))
        \<and> progress_coll (snd (enroll_in_course uuid' now' (snd (enroll_in_course uuid now d cid u)) cid u))
            = progress_coll d @
              [\<lparr>progress_id = uuid, progress_student_id = resp_id u, progress_course_id = cid,
                progress_course_title = course_title c, progress_completion_percentage = 0,
                progress_last_accessed = now, progress_time_spent_hours = 0,
                progress_quiz_scores = []\<rparr>,
               \<lparr>progress_id = uuid', progress_student_id = resp_id u, progress_course_id = cid,
                progress_course_title = course_title c, progress_completion_percentage = 0,
                progress_last_accessed = now', progress_time_spent_hours = 0,
                progress_quiz_scores = []\<rparr>])"
proof (intro conjI allI impI)
  assume "resp_role u \<noteq> ''student''"
  then show "enroll_in_course uuid now d cid u
        = (Inl (HTTPException 403 ''Only students can enroll in courses''), d)"
    by (simp add: enroll_in_course_def)
next
  assume "resp_role u = ''student''" and "find_one (\<lambda>c. course_id c = cid) (courses d) = None"
  then show "enroll_in_course uuid now d cid u = (Inr ''Successfully enrolled in course'', d)"
    by (simp add: enroll_student update_one_absent)
next
  fix c
  assume role: "resp_role u = ''student''"
    and found: "find_one (\<lambda>c. course_id c = cid) (courses d) = Some c"
    and dist: "distinct (course_enrolled_students c)"
  let ?Q = "\<lambda>c. course_id c = cid"
  let ?f = "\<lambda>c. c\<lparr>course_enrolled_students := add_to_set (resp_id u) (course_enrolled_students c)\<rparr>"
  let ?d1 = "snd (enroll_in_course uuid now d cid u)"
  let ?d2 = "snd (enroll_in_course uuid' now' ?d1 cid u)"
  have c1: "courses ?d1 = update_one ?Q ?f (courses d)"
    by (simp add: enroll_student [OF role])
  have look1: "find_one ?Q (courses ?d1) = Some (?f c)"
    unfolding c1 using found by (subst find_one_update_one) simp_all
  have c2: "courses ?d2 = update_one ?Q ?f (courses ?d1)"
    by (simp add: enroll_student [OF role])
  have idem: "update_one ?Q ?f (update_one ?Q ?f (courses d)) = update_one ?Q ?f (courses d)"
    by (rule update_one_idem) (simp_all add: add_to_set_idem)
  show same: "courses ?d2 = courses ?d1"
    unfolding c2 unfolding c1 by (rule idem)
  have "distinct (course_enrolled_students (?f c))"
    using dist by (simp add: distinct_add_to_set)
  moreover have "resp_id u \<in> set (course_enrolled_students (?f c))"
    by (simp add: add_to_set_def)
  ultimately have one: "count_list (course_enrolled_students (?f c)) (resp_id u) = 1"
    by (rule count_list_distinct)
  have members: "set (course_enrolled_students (?f c))
                   = insert (resp_id u) (set (course_enrolled_students c))"
    by (auto simp: add_to_set_def)
  show "\<exists>c'. find_one ?Q (courses ?d2) = Some c'
           \<and> count_list (course_enrolled_students c') (resp_id u) = 1
           \<and> set (course_enrolled_students c') = insert (resp_id u) (set (course_enrolled_students c))"
    unfolding same using look1 one members by blast
  have p1: "progress_coll ?d1 = progress_coll d @
              [\<lparr>progress_id = uuid, progress_student_id = resp_id u, progress_course_id = cid,
                progress_course_title = course_title c, progress_completion_percentage = 0,
                progress_last_accessed = now, progress_time_spent_hours = 0,
                progress_quiz_scores = []\<rparr>]"
    using found by (simp add: enroll_student [OF role])
  have p2: "progress_coll ?d2 = progress_coll ?d1 @
              [\<lparr>progress_id = uuid', progress_student_id = resp_id u, progress_course_id = cid,
                progress_course_title = course_title (?f c), progress_completion_percentage = 0,
                progress_last_accessed = now', progress_time_spent_hours = 0,
                progress_quiz_scores = []\<rparr>]"
    using look1 by (simp add: enroll_student [OF role])
  show "progress_coll ?d2 = progress_coll d @
              [\<lparr>progress_id = uuid, progress_student_id = resp_id u, progress_course_id = cid,
                progress_course_title = course_title c, progress_completion_percentage = 0,
                progress_last_accessed = now, progress_time_spent_hours = 0,
                progress_quiz_scores = []\<rparr>,
               \<lparr>progress_id = uuid', progress_student_id = resp_id u, progress_course_id = cid,
                progress_course_title = course_title c, progress_completion_percentage = 0,
                progress_last_accessed = now', progress_time_spent_hours = 0,
                progress_quiz_scores = []\<rparr>]"
    unfolding p2 p1 by simp
qed

theorem enroll_in_course_spec_witness:
  "enroll_in_course ''p1'' 5 seeded_db ''course_1'' teacher_1
     = (Inl (HTTPException 403 ''Only students can enroll in courses''), seeded_db)
   \<and> enroll_in_course ''p1'' 5 seeded_db ''course_9'' student_1
     = (Inr ''Successfully enrolled in course'', seeded_db)
   \<and> map progress_id (progress_coll (snd (enroll_in_course ''p2'' 6
         (snd (enroll_in_course ''p1'' 5 seeded_db ''course_1'' student_1)) ''course_1'' student_1)))
     = [''p1'', ''p2'']
   \<and> courses (snd (enroll_in_course ''p2'' 6
         (snd (enroll_in_course ''p1'' 5 seeded_db ''course_1'' student_1)) ''course_1'' student_1))
     = courses (snd (enroll_in_course ''p1'' 5 seeded_db ''course_1'' student_1))"
proof -
  note spec = enroll_in_course_spec [where d = seeded_db and uuid = "''p1''" and now = 5
      and uuid' = "''p2''" and now' = 6]
  have r1: "resp_role teacher_1 \<noteq> ''student''" by (simp add: teacher_1_def)
  have r2: "resp_role student_1 = ''student''" by (simp add: student_1_def)
  have miss: "find_one (\<lambda>c. course_id c = ''course_9'') (courses seeded_db) = None"
    by (simp add: find_one_def seeded_db_def empty_db_def seed_course_1_def seed_course_2_def)
  have hit: "find_one (\<lambda>c. course_id c = ''course_1'') (courses seeded_db) = Some seed_course_1"
    by (simp add: find_one_def seeded_db_def empty_db_def seed_course_1_def)
  have dist: "distinct (course_enrolled_students seed_course_1)"
    by (simp add: seed_course_1_def)
  have a: "enroll_in_course ''p1'' 5 seeded_db ''course_1'' teacher_1
     = (Inl (HTTPException 403 ''Only students can enroll in courses''), seeded_db)"
    using spec [where u = teacher_1 and cid = "''course_1''"] r1 by blast
  have b: "enroll_in_course ''p1'' 5 seeded_db ''course_9'' student_1
     = (Inr ''Successfully enrolled in course'', seeded_db)"
    using spec [where u = student_1 and cid = "''course_9''"] r2 miss by blast
  let ?d2 = "snd (enroll_in_course ''p2'' 6
         (snd (enroll_in_course ''p1'' 5 seeded_db ''course_1'' student_1)) ''course_1'' student_1)"
  have c: "courses ?d2 = courses (snd (enroll_in_course ''p1'' 5 seeded_db ''course_1'' student_1))"
    using spec [where u = student_1 and cid = "''course_1''"] r2 hit dist by blast
  have "progress_coll ?d2 = progress_coll seeded_db @
              [\<lparr>progress_id = ''p1'', progress_student_id = resp_id student_1,
                progress_course_id = ''course_1'',
                progress_course_title = course_title seed_course_1,
                progress_completion_percentage = 0,
                progress_last_accessed = 5, progress_time_spent_hours = 0,
                progress_quiz_scores = []\<rparr>,
               \<lparr>progress_id = ''p2'', progress_student_id = resp_id student_1,
                progress_course_id = ''course_1'',
                progress_course_title = course_title seed_course_1,
                progress_completion_percentage = 0,
                progress_last_accessed = 6, progress_time_spent_hours = 0,
                progress_quiz_scores = []\<rparr>]"
    using spec [where u = student_1 and cid = "''course_1''"] r2 hit dist by blast
  then have p: "map progress_id (progress_coll ?d2) = [''p1'', ''p2'']"
    by (simp add: seeded_db_def empty_db_def)
  show ?thesis using a b p c by simp
qed

subsection \<open>Student dashboard\<close>

lemma copy_not_seed_2: "course_copy n \<noteq> seed_course_2"
proof
  assume "course_copy n = seed_course_2"
  then have "course_title (course_copy n) = course_title seed_course_2" by simp
  then show False by (simp add: course_copy_def seed_course_1_def seed_course_2_def)
qed


lemma copy_enrolled: "course_enrolled_students (course_copy n) = [''student_1'', ''student_2'']"
  by (simp add: course_copy_def seed_course_1_def)

lemma sort_desc_props:
  "mset (sort_desc key xs) = mset xs"
  "sorted_wrt (\<lambda>p q. key q \<le> key p) (sort_desc key xs)"
proof -
  show "mset (sort_desc key xs) = mset xs" by (simp add: sort_desc_def)
  have "sorted (map (\<lambda>doc. - key doc) (sort_desc key xs))"
    by (simp add: sort_desc_def)
  then show "sorted_wrt (\<lambda>p q. key q \<le> key p) (sort_desc key xs)"
    by (simp add: sorted_map sorted_wrt_iff_nth_less)
qed

text \<open>
  C5, as the claim states it, fails: the dashboard does not return all the courses a student
  is enrolled in. With eleven courses enrolling \<open>student_1\<close>, the eleventh is left out,
  since the cursor is read with \<open>to_list(10)\<close>.
\<close>

theorem dashboard_caps_enrolled_courses:
  "seed_course_2 \<in> set (courses crowded_db)
   \<and> ''student_1'' \<in> set (course_enrolled_students seed_course_2)
   \<and> seed_course_2 \<notin> set (dash_enrolled_courses (get_student_dashboard crowded_db ''student_1''))"
proof -
  have all: "filter (\<lambda>c. ''student_1'' \<in> set (course_enrolled_students c)) (map course_copy [0..<10])
               = map course_copy [0..<10]"
    by (simp add: filter_map o_def copy_enrolled)
  have "dash_enrolled_courses (get_student_dashboard crowded_db ''student_1'')
          = map course_copy [0..<10]"
    by (simp add: get_student_dashboard_def Let_def to_list_def find_docs_def crowded_db_def
        empty_db_def all)
  moreover have "seed_course_2 \<notin> set (map course_copy [0..<10])"
    by (simp add: image_iff copy_not_seed_2 [symmetric] del: upt_rec_numeral)
  moreover have "seed_course_2 \<in> set (courses crowded_db)"
    by (simp add: crowded_db_def empty_db_def)
  moreover have "''student_1'' \<in> set (course_enrolled_students seed_course_2)"
    by (simp add: seed_course_2_def)
  ultimately show ?thesis by simp
qed

text \<open>
  C5, amended. The dashboard returns the first 10, in stored order, of the courses whose
  \<open>enrolled_students\<close> contains the student id, and the first 10 of the student's progress
  records. Its recent posts are the 5 newest posts (all of them when there are fewer),
  newest first: they are sorted by creation time descending, and together with some list of
  posts none of which is newer than any of them they make up the whole collection. A student
  enrolled in no course gets an empty course list, not an error.
\<close>

theorem student_dashboard_contents:
  "dash_enrolled_courses (get_student_dashboard d sid)
     = take 10 (filter (\<lambda>c. sid \<in> set (course_enrolled_students c)) (courses d))
   \<and> dash_progress (get_student_dashboard d sid)
     = take 10 (filter (\<lambda>p. progress_student_id p = sid) (progress_coll d))
   \<and> length (dash_recent_posts (get_student_dashboard d sid)) = min 5 (length (community_posts d))
   \<and> sorted_wrt (\<lambda>p q. post_created_at q \<le> post_created_at p)
        (dash_recent_posts (get_student_dashboard d sid))
   \<and> (\<exists>older. mset (dash_recent_posts (get_student_dashboard d sid) @ older) = mset (community_posts d)
         \<and> (\<forall>p \<in> set (dash_recent_posts (get_student_dashboard d sid)).
              \<forall>q \<in> set older. post_created_at q \<le> post_created_at p))
   \<and> ((\<forall>c \<in> set (courses d). sid \<notin> set (course_enrolled_students c)) \<longrightarrow>
        dash_enrolled_courses (get_student_dashboard d sid) = [])"
proof -
  let ?S = "sort_desc post_created_at (community_posts d)"
  have recent: "dash_recent_posts (get_student_dashboard d sid) = take 5 ?S"
    by (simp add: get_student_dashboard_def Let_def to_list_def limit_def find_docs_def)
  have sorted_S: "sorted_wrt (\<lambda>p q. post_created_at q \<le> post_created_at p) ?S"
    by (rule sort_desc_props)
  have len: "length (take 5 ?S) = min 5 (length (community_posts d))"
    by (simp add: sort_desc_def min.commute)
  have sorted_take: "sorted_wrt (\<lambda>p q. post_created_at q \<le> post_created_at p) (take 5 ?S)"
    using sorted_S by (rule sorted_wrt_take)
  have "sorted_wrt (\<lambda>p q. post_created_at q \<le> post_created_at p) (take 5 ?S @ drop 5 ?S)"
    using sorted_S by simp
  then have newer: "\<forall>p \<in> set (take 5 ?S). \<forall>q \<in> set (drop 5 ?S).
                      post_created_at q \<le> post_created_at p"
    unfolding sorted_wrt_append by blast
  have "mset (take 5 ?S @ drop 5 ?S) = mset (community_posts d)"
    by (simp add: sort_desc_props del: mset_append)
  with newer have older: "\<exists>older. mset (take 5 ?S @ older) = mset (community_posts d)
         \<and> (\<forall>p \<in> set (take 5 ?S). \<forall>q \<in> set older. post_created_at q \<le> post_created_at p)"
    by blast
  have courses: "dash_enrolled_courses (get_student_dashboard d sid)
     = take 10 (filter (\<lambda>c. sid \<in> set (course_enrolled_students c)) (courses d))"
    by (simp add: get_student_dashboard_def Let_def to_list_def find_docs_def)
  have prog: "dash_progress (get_student_dashboard d sid)
     = take 10 (filter (\<lambda>p. progress_student_id p = sid) (progress_coll d))"
    by (simp add: get_student_dashboard_def Let_def to_list_def find_docs_def)
  have none: "(\<forall>c \<in> set (courses d). sid \<notin> set (course_enrolled_students c)) \<longrightarrow>
        dash_enrolled_courses (get_student_dashboard d sid) = []"
    unfolding courses by (simp add: filter_empty_conv)
  show ?thesis
    unfolding recent using courses prog len sorted_take older none
    unfolding recent by blast
qed

theorem student_dashboard_contents_witness:
  "map course_enrolled_students (courses seeded_db)
     = [[''student_1'', ''student_2''], [''student_1'']]
   \<and> dash_enrolled_courses (get_student_dashboard seeded_db ''student_9'') = []
   \<and> dash_enrolled_courses (get_student_dashboard seeded_db ''student_2'') = [seed_course_1]
   \<and> length (dash_recent_posts (get_student_dashboard seeded_db ''student_9'')) = 2"
proof -
  have nobody: "\<forall>c \<in> set (courses seeded_db). ''student_9'' \<notin> set (course_enrolled_students c)"
    by (simp add: seeded_db_def empty_db_def seed_course_1_def seed_course_2_def)
  have a: "dash_enrolled_courses (get_student_dashboard seeded_db ''student_9'') = []"
    using student_dashboard_contents [of seeded_db "''student_9''"] nobody by blast
  have "length (dash_recent_posts (get_student_dashboard seeded_db ''student_9''))
          = min 5 (length (community_posts seeded_db))"
    using student_dashboard_contents [of seeded_db "''student_9''"] by blast
  then have b: "length (dash_recent_posts (get_student_dashboard seeded_db ''student_9'')) = 2"
    by (simp add: seeded_db_def empty_db_def)
  have "dash_enrolled_courses (get_student_dashboard seeded_db ''student_2'')
          = take 10 (filter (\<lambda>c. ''student_2'' \<in> set (course_enrolled_students c)) (courses seeded_db))"
    using student_dashboard_contents [of seeded_db "''student_2''"] by blast
  then have c: "dash_enrolled_courses (get_student_dashboard seeded_db ''student_2'') = [seed_course_1]"
    by (simp add: seeded_db_def empty_db_def seed_course_1_def seed_course_2_def)
  have listed: "map course_enrolled_students (courses seeded_db)
                  = [[''student_1'', ''student_2''], [''student_1'']]"
    by (simp add: seeded_db_def empty_db_def seed_course_1_def seed_course_2_def)
  show ?thesis using listed a b c by simp
qed

subsection \<open>Course listing\<close>




subsection \<open>Teacher profile\<close>

text \<open>
  C6, as the claim states it, fails: a field left out of the request does not keep its
  stored value. The seeded teacher has a bio and an hourly rate; after an update whose body
  gives only \<open>subjects\<close> and \<open>experience_years\<close>, both are \<open>None\<close>.
\<close>

theorem update_teacher_profile_clears_bio:
  "map teacher_bio (teachers seeded_db) = [Some ''Passionate educator'']
   \<and> map teacher_hourly_rate (teachers seeded_db) = [Some 75]
   \<and> map teacher_bio (teachers (snd (update_teacher_profile seeded_db bare_profile teacher_1))) = [None]
   \<and> map teacher_hourly_rate (teachers (snd (update_teacher_profile seeded_db bare_profile teacher_1)))
       = [None]"
  by (simp add: update_teacher_profile_def seeded_db_def empty_db_def seed_teacher_1_def
      teacher_1_def bare_profile_def set_profile_def bson_int_def)

text \<open>
  C6, amended. \<open>update_teacher_profile\<close> fails with status 403 and changes nothing when the
  actor's role is not \<open>teacher\<close>. For a teacher and a request whose \<open>experience_years\<close> fits in
  a signed 64-bit integer it succeeds and changes the teachers collection only: the first
  profile whose \<open>user_id\<close> is the actor's id gets the four fields \<open>subjects\<close>,
  \<open>experience_years\<close>, \<open>bio\<close> and \<open>hourly_rate\<close> of the request, a \<open>bio\<close> or \<open>hourly_rate\<close>
  left out of the request being stored as \<open>None\<close>; its other fields and all other profiles
  stay as they were. For a teacher and an \<open>experience_years\<close> outside that range the update
  raises \<open>OverflowError\<close> and changes nothing.
\<close>

theorem update_teacher_profile_effect:
  "(resp_role u \<noteq> ''teacher'' \<longrightarrow>
      update_teacher_profile d pd u
        = (Inl (HTTPException 403 ''Only teachers can update profile''), d))
   \<and> (resp_role u = ''teacher'' \<longrightarrow> \<not> bson_int (tc_experience_years pd) \<longrightarrow>
        update_teacher_profile d pd u = (Inl OverflowError, d))
   \<and> (resp_role u = ''teacher'' \<longrightarrow> bson_int (tc_experience_years pd) \<longrightarrow>
        fst (update_teacher_profile d pd u) = Inr ''Profile updated successfully''
        \<and> snd (update_teacher_profile d pd u)
            = d\<lparr>teachers := teachers (snd (update_teacher_profile d pd u))\<rparr>
        \<and> length (teachers (snd (update_teacher_profile d pd u))) = length (teachers d)
        \<and> (\<forall>i < length (teachers d).
             teachers (snd (update_teacher_profile d pd u)) ! i =
               (if teacher_user_id (teachers d ! i) = resp_id u \<and>
                   (\<forall>j < i. teacher_user_id (teachers d ! j) \<noteq> resp_id u)
                then (teachers d ! i)\<lparr>teacher_subjects := tc_subjects pd,
                       teacher_experience_years := tc_experience_years pd,
                       teacher_bio := tc_bio pd, teacher_hourly_rate := tc_hourly_rate pd\<rparr>
                else teachers d ! i)))"
proof (intro conjI impI allI)
  assume "resp_role u \<noteq> ''teacher''"
  then show "update_teacher_profile d pd u
        = (Inl (HTTPException 403 ''Only teachers can update profile''), d)"
    by (simp add: update_teacher_profile_def)
next
  assume "resp_role u = ''teacher''" and "\<not> bson_int (tc_experience_years pd)"
  then show "update_teacher_profile d pd u = (Inl OverflowError, d)"
    by (simp add: update_teacher_profile_def)
next
  assume "resp_role u = ''teacher''" and "bson_int (tc_experience_years pd)"
  then show "fst (update_teacher_profile d pd u) = Inr ''Profile updated successfully''"
    by (simp add: update_teacher_profile_def)
next
  assume "resp_role u = ''teacher''" and "bson_int (tc_experience_years pd)"
  then show "snd (update_teacher_profile d pd u)
            = d\<lparr>teachers := teachers (snd (update_teacher_profile d pd u))\<rparr>"
    by (simp add: update_teacher_profile_def)
next
  assume "resp_role u = ''teacher''" and "bson_int (tc_experience_years pd)"
  then show "length (teachers (snd (update_teacher_profile d pd u))) = length (teachers d)"
    by (simp add: update_teacher_profile_def length_update_one)
next
  fix i
  assume role: "resp_role u = ''teacher''" and fits: "bson_int (tc_experience_years pd)"
    and i: "i < length (teachers d)"
  have "teachers (snd (update_teacher_profile d pd u))
          = update_one (\<lambda>t. teacher_user_id t = resp_id u) (set_profile pd) (teachers d)"
    using role fits by (simp add: update_teacher_profile_def)
  then show "teachers (snd (update_teacher_profile d pd u)) ! i =
               (if teacher_user_id (teachers d ! i) = resp_id u \<and>
                   (\<forall>j < i. teacher_user_id (teachers d ! j) \<noteq> resp_id u)
                then (teachers d ! i)\<lparr>teacher_subjects := tc_subjects pd,
                       teacher_experience_years := tc_experience_years pd,
                       teacher_bio := tc_bio pd, teacher_hourly_rate := tc_hourly_rate pd\<rparr>
                else teachers d ! i)"
    using nth_update_one [OF i, of "\<lambda>t. teacher_user_id t = resp_id u" "set_profile pd"]
    by (auto simp: set_profile_def)
qed

theorem update_teacher_profile_effect_witness:
  "update_teacher_profile seeded_db bare_profile student_1
     = (Inl (HTTPException 403 ''Only teachers can update profile''), seeded_db)
   \<and> update_teacher_profile seeded_db
        (bare_profile\<lparr>tc_experience_years := 9223372036854775808\<rparr>) teacher_1
     = (Inl OverflowError, seeded_db)
   \<and> fst (update_teacher_profile seeded_db bare_profile teacher_1) = Inr ''Profile updated successfully''
   \<and> teachers (snd (update_teacher_profile seeded_db bare_profile teacher_1)) ! 0
       = seed_teacher_1\<lparr>teacher_subjects := [''Programming''], teacher_experience_years := 13,
                         teacher_bio := None, teacher_hourly_rate := None\<rparr>"
proof -
  note effect = update_teacher_profile_effect [where d = seeded_db]
  have r1: "resp_role student_1 \<noteq> ''teacher''" by (simp add: student_1_def)
  have r2: "resp_role teacher_1 = ''teacher''" by (simp add: teacher_1_def)
  have fits: "bson_int (tc_experience_years bare_profile)"
    by (simp add: bare_profile_def bson_int_def)
  have huge: "\<not> bson_int (tc_experience_years
                 (bare_profile\<lparr>tc_experience_years := 9223372036854775808\<rparr>))"
    by (simp add: bson_int_def)
  have a: "update_teacher_profile seeded_db bare_profile student_1
     = (Inl (HTTPException 403 ''Only teachers can update profile''), seeded_db)"
    using effect [where u = student_1 and pd = bare_profile] r1 by blast
  have o: "update_teacher_profile seeded_db
        (bare_profile\<lparr>tc_experience_years := 9223372036854775808\<rparr>) teacher_1
     = (Inl OverflowError, seeded_db)"
    using effect [where u = teacher_1
        and pd = "bare_profile\<lparr>tc_experience_years := 9223372036854775808\<rparr>"] r2 huge
    by blast
  have b: "fst (update_teacher_profile seeded_db bare_profile teacher_1)
             = Inr ''Profile updated successfully''"
    using effect [where u = teacher_1 and pd = bare_profile] r2 fits by blast
  have zero: "0 < length (teachers seeded_db)"
    by (simp add: seeded_db_def empty_db_def)
  have "teachers (snd (update_teacher_profile seeded_db bare_profile teacher_1)) ! 0 =
               (if teacher_user_id (teachers seeded_db ! 0) = resp_id teacher_1 \<and>
                   (\<forall>j < 0. teacher_user_id (teachers seeded_db ! j) \<noteq> resp_id teacher_1)
                then (teachers seeded_db ! 0)\<lparr>teacher_subjects := tc_subjects bare_profile,
                       teacher_experience_years := tc_experience_years bare_profile,
                       teacher_bio := tc_bio bare_profile,
                       teacher_hourly_rate := tc_hourly_rate bare_profile\<rparr>
                else teachers seeded_db ! 0)"
    using effect [where u = teacher_1 and pd = bare_profile] r2 fits zero by blast
  then have c: "teachers (snd (update_teacher_profile seeded_db bare_profile teacher_1)) ! 0
       = seed_teacher_1\<lparr>teacher_subjects := [''Programming''], teacher_experience_years := 13,
                         teacher_bio := None, teacher_hourly_rate := None\<rparr>"
    by (simp add: seeded_db_def empty_db_def seed_teacher_1_def teacher_1_def bare_profile_def)
  show ?thesis using a o b c by simp
qed

subsection \<open>Progress statistics\<close>

text \<open>
  What the handler computes before the response is encoded: the statistics are taken over
  the first 50 of the student's progress records, and the mean is 0 when there is none.
\<close>

lemma progress_body_stats:
  "view_courses (progress_body d sid)
     = take 50 (filter (\<lambda>p. progress_student_id p = sid) (progress_coll d))
   \<and> total_courses (view_stats (progress_body d sid)) = length (view_courses (progress_body d sid))
   \<and> total_time_hours (view_stats (progress_body d sid))
     = sum_list (map progress_time_spent_hours (view_courses (progress_body d sid)))
   \<and> average_completion (view_stats (progress_body d sid))
     = (if view_courses (progress_body d sid) = [] then 0
        else sum_list (map progress_completion_percentage (view_courses (progress_body d sid)))
             / real (length (view_courses (progress_body d sid))))"
proof -
  let ?recs = "take 50 (filter (\<lambda>p. progress_student_id p = sid) (progress_coll d))"
  have v: "view_courses (progress_body d sid) = ?recs"
    by (simp add: progress_body_def Let_def to_list_def find_docs_def)
  have n: "total_courses (view_stats (progress_body d sid)) = length ?recs"
    by (simp add: progress_body_def Let_def to_list_def find_docs_def)
  have t: "total_time_hours (view_stats (progress_body d sid))
             = sum_list (map progress_time_spent_hours ?recs)"
    by (simp add: progress_body_def Let_def to_list_def find_docs_def)
  have a: "average_completion (view_stats (progress_body d sid))
             = sum_list (map progress_completion_percentage ?recs) / real (max (length ?recs) 1)"
    by (simp add: progress_body_def Let_def to_list_def find_docs_def)
  have m: "?recs \<noteq> [] \<Longrightarrow> max (length ?recs) 1 = length ?recs"
    by (cases ?recs) simp_all
  have a': "average_completion (view_stats (progress_body d sid))
     = (if ?recs = [] then 0
        else sum_list (map progress_completion_percentage ?recs) / real (length ?recs))"
    using a m by (cases "?recs = []") simp_all
  show ?thesis
    unfolding v using n t a' by simp
qed

lemma progress_body_truncates:
  "length (progress_coll busy_db) = 51
   \<and> set (map progress_student_id (progress_coll busy_db)) = {''student_1''}
   \<and> total_courses (view_stats (progress_body busy_db ''student_1'')) = 50"
proof -
  have mine: "filter (\<lambda>p. progress_student_id p = ''student_1'') (map progress_copy [0..<51])
                = map progress_copy [0..<51]"
    by (simp add: filter_map o_def progress_copy_def del: upt_rec_numeral)
  have len: "length (progress_coll busy_db) = 51"
    by (simp add: busy_db_def empty_db_def)
  have owner: "set (map progress_student_id (progress_coll busy_db)) = {''student_1''}"
    by (simp add: busy_db_def empty_db_def progress_copy_def o_def image_constant_conv
        del: upt_rec_numeral)
  have "total_courses (view_stats (progress_body busy_db ''student_1'')) = 50"
    by (simp add: progress_body_def Let_def to_list_def find_docs_def busy_db_def
        empty_db_def mine del: upt_rec_numeral)
  with len owner show ?thesis by simp
qed

text \<open>
  The endpoint answers with the body exactly when the student has no progress record;
  with a record, the encoding of the response raises \<open>ValueError\<close>.
\<close>

lemma get_student_progress_cases:
  "get_student_progress d sid =
     (if \<exists>p \<in> set (progress_coll d). progress_student_id p = sid
      then Inl (ValueError ''ObjectId object is not iterable'')
      else Inr (progress_body d sid))"
proof -
  have "view_courses (progress_body d sid) = [] \<longleftrightarrow>
          \<not> (\<exists>p \<in> set (progress_coll d). progress_student_id p = sid)"
    by (auto simp: progress_body_def Let_def to_list_def find_docs_def filter_empty_conv)
  then show ?thesis
    by (simp add: get_student_progress_def jsonable_encoder_def Let_def)
qed

text \<open>
  C7. The claim is that \<open>get_student_progress\<close> returns the student's statistics: the number
  of records, the sum of the hours and the mean completion, 0 without records. For a student
  with two progress records the handler computes 2 records, a mean of 50 and 4 hours, but
  it returns the documents as \<open>find\<close> read them, with their \<open>ObjectId\<close>, so encoding the
  response raises \<open>ValueError\<close> and the endpoint answers 500. Only a student without any
  record gets an answer, with all three statistics 0.
\<close>

theorem get_student_progress_fails_with_records:
  "get_student_progress two_records_db ''student_1''
     = Inl (ValueError ''ObjectId object is not iterable'')
   \<and> status_code (ValueError ''ObjectId object is not iterable'') = 500
   \<and> view_stats (progress_body two_records_db ''student_1'')
     = \<lparr>total_courses = 2, average_completion = 50, total_time_hours = 4\<rparr>
   \<and> get_student_progress seeded_db ''student_1''
     = Inr \<lparr>view_courses = [],
            view_stats = \<lparr>total_courses = 0, average_completion = 0, total_time_hours = 0\<rparr>,
            view_ai_analysis = analyze_progress ''student_1''\<rparr>"
  by (simp add: get_student_progress_def jsonable_encoder_def progress_body_def Let_def
      to_list_def find_docs_def two_records_db_def seeded_db_def empty_db_def progress_copy_def)

end
